theory Spec2Isabelle
  imports Complex_Main "HOL-Library.Log_Nat"
begin

section \<open>JavaScript numbers\<close>

text \<open>
  The trait fields of \<^verbatim>\<open>ZombieDetails\<close> have the JavaScript type \<^verbatim>\<open>number\<close>: an
  IEEE-754 binary64 value. A finite double is modelled by the rational it denotes and
  \<^verbatim>\<open>NaN\<close> by a constructor of its own. Every arithmetic operation computes the exact
  rational result and rounds it to the nearest double, ties to even (\<open>fl64\<close>).

  Scope of the model: infinities, subnormal numbers and the sign of zero are not
  represented (\<open>-0\<close> and \<open>+0\<close> are one value, as they are for \<^verbatim>\<open>===\<close>).
  \<^verbatim>\<open>generateZombie\<close> applies the operations to the value of at most two characters and
  to the literals 1, 6, 7, 11, 100 and 360 only, where neither an infinity nor a
  subnormal number can arise.
\<close>

datatype number = NaN | Num rat

definition ilog2 :: "rat \<Rightarrow> int" where
  \<comment> \<open>\<open>\<lfloor>log\<^sub>2 x\<rfloor>\<close> of a positive rational: one less than the bit length of \<open>\<lfloor>x\<rfloor>\<close>
      from 1 on; below 1 the negated \<open>\<lceil>log\<^sub>2 (1 / x)\<rceil>\<close>\<close>
  "ilog2 x = (if 1 \<le> x then bitlen \<lfloor>x\<rfloor> - 1 else - bitlen (\<lceil>1 / x\<rceil> - 1))"

definition round_half_even :: "rat \<Rightarrow> int" where
  "round_half_even y =
     (let f = \<lfloor>y\<rfloor>; r = y - of_int f
      in if r < 1 / 2 then f
         else if 1 / 2 < r then f + 1
         else if even f then f else f + 1)"

definition fl64 :: "rat \<Rightarrow> rat" where
  \<comment> \<open>round to a 53-bit significand, nearest, ties to even\<close>
  "fl64 x =
     (if x = 0 then 0
      else let e = ilog2 \<bar>x\<bar> - 52
           in sgn x * of_int (round_half_even (\<bar>x\<bar> / 2 powi e)) * 2 powi e)"

definition trunc :: "rat \<Rightarrow> int" where
  "trunc q = (if q < 0 then \<lceil>q\<rceil> else \<lfloor>q\<rfloor>)"

fun js_rem :: "number \<Rightarrow> number \<Rightarrow> number" where
  \<comment> \<open>\<^verbatim>\<open>a % b\<close>: the remainder has the sign of the dividend and is exact\<close>
  "js_rem (Num a) (Num b) = (if b = 0 then NaN else Num (a - b * of_int (trunc (a / b))))"
| "js_rem _ _ = NaN"

fun js_add :: "number \<Rightarrow> number \<Rightarrow> number" where
  "js_add (Num a) (Num b) = Num (fl64 (a + b))"
| "js_add _ _ = NaN"

fun js_mul :: "number \<Rightarrow> number \<Rightarrow> number" where
  "js_mul (Num a) (Num b) = Num (fl64 (a * b))"
| "js_mul _ _ = NaN"

fun js_div :: "number \<Rightarrow> number \<Rightarrow> number" where
  \<comment> \<open>a zero divisor (an infinity or \<^verbatim>\<open>NaN\<close> in JavaScript) is outside the model's
      scope; the only divisor in the source is the literal 100\<close>
  "js_div (Num a) (Num b) = (if b = 0 then NaN else Num (fl64 (a / b)))"
| "js_div _ _ = NaN"

fun Math_floor :: "number \<Rightarrow> number" where
  "Math_floor (Num a) = Num (of_int \<lfloor>a\<rfloor>)"
| "Math_floor NaN = NaN"

section \<open>Strings\<close>

text \<open>
  A string is a list of characters. The strings that \<^verbatim>\<open>generateZombie\<close> inspects are
  built from decimal digits and the minus sign, so one \<^typ>\<open>char\<close> per UTF-16 code unit
  is exact for them; the name is passed through and never inspected.
\<close>

definition digit_char :: "nat \<Rightarrow> char" where
  "digit_char d = ''0123456789'' ! (d mod 10)"

function digits10 :: "nat \<Rightarrow> string" where
  "digits10 n = (if n < 10 then [digit_char n] else digits10 (n div 10) @ [digit_char (n mod 10)])"
  by pat_completeness auto
termination
  by (relation "measure id") auto

definition toString :: "int \<Rightarrow> string" where
  \<comment> \<open>\<^verbatim>\<open>BigInt.prototype.toString()\<close>, radix 10\<close>
  "toString i = (if i < 0 then CHR ''-'' # digits10 (nat (- i)) else digits10 (nat i))"

definition padStart :: "nat \<Rightarrow> string \<Rightarrow> string \<Rightarrow> string" where
  \<comment> \<open>\<^verbatim>\<open>s.padStart(targetLength, padString)\<close>\<close>
  "padStart targetLength padString s =
     (if targetLength \<le> length s \<or> padString = [] then s
      else let fillLen = targetLength - length s
           in take fillLen (concat (replicate fillLen padString)) @ s)"

definition substring :: "nat \<Rightarrow> nat \<Rightarrow> string \<Rightarrow> string" where
  \<comment> \<open>\<^verbatim>\<open>s.substring(start, end)\<close>: both indices are clamped to the length and swapped
      when \<open>end < start\<close>\<close>
  "substring start end s =
     (let a = min start (length s); b = min end (length s);
          from = min a b; to = max a b
      in take (to - from) (drop from s))"

definition digit_val :: "char \<Rightarrow> nat option" where
  \<comment> \<open>the value of a digit in radix up to 16, in either case of the letters\<close>
  "digit_val =
     map_of
       [(CHR ''0'', 0), (CHR ''1'', 1), (CHR ''2'', 2), (CHR ''3'', 3), (CHR ''4'', 4),
        (CHR ''5'', 5), (CHR ''6'', 6), (CHR ''7'', 7), (CHR ''8'', 8), (CHR ''9'', 9),
        (CHR ''a'', 10), (CHR ''b'', 11), (CHR ''c'', 12), (CHR ''d'', 13), (CHR ''e'', 14),
        (CHR ''f'', 15),
        (CHR ''A'', 10), (CHR ''B'', 11), (CHR ''C'', 12), (CHR ''D'', 13), (CHR ''E'', 14),
        (CHR ''F'', 15)]"

definition is_radix_digit :: "nat \<Rightarrow> char \<Rightarrow> bool" where
  "is_radix_digit radix c = (case digit_val c of Some d \<Rightarrow> d < radix | None \<Rightarrow> False)"

definition radix_value :: "nat \<Rightarrow> string \<Rightarrow> nat" where
  "radix_value radix ds =
     foldl (\<lambda>acc c. case digit_val c of Some d \<Rightarrow> acc * radix + d | None \<Rightarrow> acc) 0 ds"

definition is_white_space :: "char \<Rightarrow> bool" where
  "is_white_space c =
     (c = CHR '' '' \<or> c = CHR 0x09 \<or> c = CHR 0x0A \<or> c = CHR 0x0B \<or> c = CHR 0x0C
      \<or> c = CHR 0x0D)"

definition parseInt :: "string \<Rightarrow> number" where
  \<comment> \<open>\<^verbatim>\<open>parseInt(s)\<close> without a radix argument: leading (ASCII) white space, an optional sign,
      an optional \<^verbatim>\<open>0x\<close> prefix selecting radix 16, then the longest prefix of digits;
      \<^verbatim>\<open>NaN\<close> when that prefix is empty. The value is exact for magnitudes below
      \<open>2\<^sup>5\<^sup>3\<close>; the source passes at most two characters.\<close>
  "parseInt s =
     (let s1 = dropWhile is_white_space s;
          (sign, s2) = (case s1 of
                          c # r \<Rightarrow> if c = CHR ''-'' then (- 1, r)
                                   else if c = CHR ''+'' then (1, r) else (1, s1)
                        | [] \<Rightarrow> (1, s1));
          (radix, s3) = (case s2 of
                           c # d # r \<Rightarrow> if c = CHR ''0'' \<and> (d = CHR ''x'' \<or> d = CHR ''X'')
                                        then (16, r) else (10, s2)
                         | _ \<Rightarrow> (10, s2));
          ds = takeWhile (is_radix_digit radix) s3
      in if ds = [] then NaN else Num (sign * of_nat (radix_value radix ds)))"

section \<open>The trait deriver\<close>

record ZombieDetails =
  headChoice :: number
  eyeChoice :: number
  shirtChoice :: number
  skinColorChoice :: number
  eyeColorChoice :: number
  clothesColorChoice :: number
  zombieName :: string
  zombieDescription :: string

datatype error = Error string

datatype console_entry =
    ConsoleLog string ZombieDetails
  | ConsoleError string error

type_synonym console = "console_entry list"

definition generateZombie ::
  "console \<Rightarrow> int \<Rightarrow> string \<Rightarrow> int \<Rightarrow> ZombieDetails \<times> console" where
  \<comment> \<open>the console is the only state the function touches: it appends one line\<close>
  "generateZombie con zombieId name dna =
     (let dnaStr = padStart 16 ''0'' (toString dna);
          zombieDetails = \<lparr>
            headChoice = js_add (js_rem (parseInt (substring 0 2 dnaStr)) (Num 7)) (Num 1),
            eyeChoice = js_add (js_rem (parseInt (substring 2 4 dnaStr)) (Num 11)) (Num 1),
            shirtChoice = js_add (js_rem (parseInt (substring 4 6 dnaStr)) (Num 6)) (Num 1),
            skinColorChoice =
              Math_floor (js_mul (js_div (parseInt (substring 6 8 dnaStr)) (Num 100)) (Num 360)),
            eyeColorChoice =
              Math_floor (js_mul (js_div (parseInt (substring 8 10 dnaStr)) (Num 100)) (Num 360)),
            clothesColorChoice =
              Math_floor (js_mul (js_div (parseInt (substring 10 12 dnaStr)) (Num 100)) (Num 360)),
            zombieName = name,
            zombieDescription = ''A Level 1 CryptoZombie'' \<rparr>
      in (zombieDetails, con @ [ConsoleLog ''Generated zombie:'' zombieDetails]))"


section \<open>The contract gateway\<close>

text \<open>
  \<^verbatim>\<open>ZombieFactory\<close> calls two collaborators of the \<^verbatim>\<open>viem\<close> library, the wallet client
  and the public client. Their code is not part of the repository, so each primitive is
  a parameter: a function of the state of the outside world \<open>'w\<close> that returns either
  the error it throws (\<open>Inl\<close>) or its result, and the new state of the world. The
  state of a run also holds the console and a trace of the primitives invoked so far,
  each with the error it raised, if any.
\<close>

type_synonym address = string
type_synonym hash = string

datatype abi_arg = ArgString string | ArgBigint int

definition ZombieFactoryAbi :: "string list" where
  \<comment> \<open>the interface schema, by the names of its items\<close>
  "ZombieFactoryAbi = [''NewZombie'', ''createRandomZombie'', ''zombies'']"

record contract_call =
  address :: address
  abi :: "string list"
  functionName :: string
  args :: "abi_arg list"
  account :: "address option"

record ('w, 'req) wallet_client =
  requestAddresses :: "'w \<Rightarrow> (error + address list) \<times> 'w"
  writeContract :: "'req \<Rightarrow> 'w \<Rightarrow> (error + hash) \<times> 'w"

record ('w, 'req) public_client =
  simulateContract :: "contract_call \<Rightarrow> 'w \<Rightarrow> (error + 'req) \<times> 'w"
  readContract :: "contract_call \<Rightarrow> 'w \<Rightarrow> (error + string \<times> int) \<times> 'w"

datatype 'req call =
    RequestAddresses
  | SimulateContract contract_call
  | WriteContract 'req
  | ReadContract contract_call

datatype primitive = PRequestAddresses | PSimulateContract | PWriteContract | PReadContract

fun primitive_of :: "'req call \<Rightarrow> primitive" where
  "primitive_of RequestAddresses = PRequestAddresses"
| "primitive_of (SimulateContract _) = PSimulateContract"
| "primitive_of (WriteContract _) = PWriteContract"
| "primitive_of (ReadContract _) = PReadContract"

record ('w, 'req) run_state =
  world :: 'w
  calls :: "('req call \<times> error option) list"
  console :: console

definition raised :: "error + 'a \<Rightarrow> error option" where
  "raised r = (case r of Inl e \<Rightarrow> Some e | Inr _ \<Rightarrow> None)"

definition invoke ::
  "'req call \<Rightarrow> ('w \<Rightarrow> (error + 'a) \<times> 'w) \<Rightarrow> ('w, 'req) run_state
     \<Rightarrow> (error + 'a) \<times> ('w, 'req) run_state" where
  \<comment> \<open>one awaited call of a collaborator primitive, entered in the trace\<close>
  "invoke c prim s =
     (let (r, w) = prim (world s)
      in (r, s\<lparr>world := w, calls := calls s @ [(c, raised r)]\<rparr>))"

definition console_error :: "string \<Rightarrow> error \<Rightarrow> ('w, 'req) run_state \<Rightarrow> ('w, 'req) run_state" where
  "console_error msg e s = s\<lparr>console := console s @ [ConsoleError msg e]\<rparr>"

definition createRandomZombie ::
  "('w, 'req) wallet_client \<Rightarrow> ('w, 'req) public_client \<Rightarrow> address \<Rightarrow> string
     \<Rightarrow> ('w, 'req) run_state \<Rightarrow> (error + hash) \<times> ('w, 'req) run_state" where
  \<comment> \<open>every \<^verbatim>\<open>await\<close> sits in one \<^verbatim>\<open>try\<close> block whose handler logs the error and throws
      it again; \<^verbatim>\<open>const [account] = ...\<close> leaves \<^verbatim>\<open>account\<close> undefined on an empty array\<close>
  "createRandomZombie walletClient publicClient contractAddress name s =
     (case invoke RequestAddresses (requestAddresses walletClient) s of
        (Inl error, s1) \<Rightarrow> (Inl error, console_error ''Error creating zombie:'' error s1)
      | (Inr accounts, s1) \<Rightarrow>
          (let params = \<lparr> address = contractAddress,
                           abi = ZombieFactoryAbi,
                           functionName = ''createRandomZombie'',
                           args = [ArgString name],
                           account = (case accounts of [] \<Rightarrow> None | a # _ \<Rightarrow> Some a) \<rparr>
           in case invoke (SimulateContract params) (simulateContract publicClient params) s1 of
                (Inl error, s2) \<Rightarrow> (Inl error, console_error ''Error creating zombie:'' error s2)
              | (Inr request, s2) \<Rightarrow>
                  (case invoke (WriteContract request) (writeContract walletClient request) s2 of
                     (Inl error, s3) \<Rightarrow>
                       (Inl error, console_error ''Error creating zombie:'' error s3)
                   | (Inr hash, s3) \<Rightarrow> (Inr hash, s3))))"

record ZombieRecord =
  zombie_name :: string
  zombie_dna :: int

definition getZombie ::
  "('w, 'req) public_client \<Rightarrow> address \<Rightarrow> int
     \<Rightarrow> ('w, 'req) run_state \<Rightarrow> (error + ZombieRecord) \<times> ('w, 'req) run_state" where
  "getZombie publicClient contractAddress zombieId s =
     (let params = \<lparr> address = contractAddress,
                      abi = ZombieFactoryAbi,
                      functionName = ''zombies'',
                      args = [ArgBigint zombieId],
                      account = None \<rparr>
      in case invoke (ReadContract params) (readContract publicClient params) s of
           (Inl error, s1) \<Rightarrow> (Inl error, console_error ''Error getting zombie:'' error s1)
         | (Inr result, s1) \<Rightarrow> (Inr \<lparr> zombie_name = fst result, zombie_dna = snd result \<rparr>, s1))"

subsection \<open>Event logs\<close>

text \<open>
  A log carries the decoded event arguments, or none; \<^verbatim>\<open>log.args\<close> is an object when
  present, hence truthy. Each argument may itself be undefined: the source reads it
  with a non-null assertion, which checks nothing at run time, so the event handed to
  the callback holds whatever the log held. The callback acts on the state \<open>'s\<close> of
  the application and may throw.
\<close>

record event_args =
  arg_zombieId :: "int option"
  arg_name :: "string option"
  arg_dna :: "int option"

record log =
  log_args :: "event_args option"

record NewZombieEvent =
  ev_zombieId :: "int option"
  ev_name :: "string option"
  ev_dna :: "int option"

fun onLogs ::
  "(NewZombieEvent \<Rightarrow> 's \<Rightarrow> error + 's) \<Rightarrow> log list \<Rightarrow> 's \<Rightarrow> error + 's" where
  \<comment> \<open>the \<^verbatim>\<open>onLogs\<close> closure: \<^verbatim>\<open>logs.forEach\<close> with the guard \<^verbatim>\<open>if (log.args)\<close>; an
      exception of the callback leaves the loop\<close>
  "onLogs callback [] s = Inr s"
| "onLogs callback (l # logs) s =
     (case log_args l of
        None \<Rightarrow> onLogs callback logs s
      | Some a \<Rightarrow>
          (case callback \<lparr> ev_zombieId = arg_zombieId a,
                            ev_name = arg_name a,
                            ev_dna = arg_dna a \<rparr> s of
             Inl e \<Rightarrow> Inl e
           | Inr s' \<Rightarrow> onLogs callback logs s'))"

record 's watch_params =
  watch_address :: address
  watch_abi :: "string list"
  watch_eventName :: string
  watch_onLogs :: "log list \<Rightarrow> 's \<Rightarrow> error + 's"

datatype sub_status = Active | Stopped

record 's subscription =
  sub_params :: "'s watch_params"
  sub_status :: sub_status

definition watchContractEvent :: "'s watch_params \<Rightarrow> 's subscription" where
  \<comment> \<open>Modelled from the spec: \<^verbatim>\<open>publicClient.watchContractEvent\<close> belongs to the
      \<^verbatim>\<open>viem\<close> library, whose code is not in the repository. It registers a
      subscription, which starts active, and returns the handle that stops it.\<close>
  "watchContractEvent params = \<lparr> sub_params = params, sub_status = Active \<rparr>"

definition unwatch :: "'s subscription \<Rightarrow> 's subscription" where
  \<comment> \<open>Modelled from the spec: invoking the handle terminates the subscription; a
      further invocation is a no-op.\<close>
  "unwatch sub = (case sub_status sub of Active \<Rightarrow> sub\<lparr>sub_status := Stopped\<rparr> | Stopped \<Rightarrow> sub)"

definition deliver :: "log list \<Rightarrow> 's subscription \<Rightarrow> 's \<Rightarrow> error + 's" where
  \<comment> \<open>Modelled from the spec: the node reports a batch of matching logs; an active
      subscription passes it to \<^verbatim>\<open>onLogs\<close>, a stopped one does nothing.\<close>
  "deliver batch sub s =
     (case sub_status sub of Active \<Rightarrow> watch_onLogs (sub_params sub) batch s | Stopped \<Rightarrow> Inr s)"

definition watchNewZombieEvents ::
  "address \<Rightarrow> (NewZombieEvent \<Rightarrow> 's \<Rightarrow> error + 's) \<Rightarrow> 's subscription" where
  "watchNewZombieEvents contractAddress callback =
     watchContractEvent \<lparr> watch_address = contractAddress,
                          watch_abi = ZombieFactoryAbi,
                          watch_eventName = ''NewZombie'',
                          watch_onLogs = onLogs callback \<rparr>"

datatype sub_event = Batch "log list" | Unwatch

fun run_events :: "sub_event list \<Rightarrow> 's subscription \<Rightarrow> 's \<Rightarrow> error + 's subscription \<times> 's" where
  \<comment> \<open>the life of one subscription: batches reported by the node, interleaved with
      invocations of the handle\<close>
  "run_events [] sub s = Inr (sub, s)"
| "run_events (Unwatch # evs) sub s = run_events evs (unwatch sub) s"
| "run_events (Batch b # evs) sub s =
     (case deliver b sub s of Inl e \<Rightarrow> Inl e | Inr s' \<Rightarrow> run_events evs sub s')"

section \<open>Notions used in the statements\<close>

definition is_decimal :: "string \<Rightarrow> bool" where
  "is_decimal s = list_all (is_radix_digit 10) s"

definition dna_field :: "nat \<Rightarrow> nat \<Rightarrow> nat \<Rightarrow> nat \<Rightarrow> nat" where
  \<comment> \<open>the number written by the characters \<open>[a, b)\<close> of the \<open>n\<close>-character decimal
      representation of \<open>d\<close>, counted from the most significant digit\<close>
  "dna_field n a b d = (d div 10 ^ (n - b)) mod 10 ^ (b - a)"

definition hue_degrees :: "nat \<Rightarrow> nat" where
  \<comment> \<open>\<open>\<lfloor>v / 100 \<times> 360\<rfloor>\<close> as binary64 arithmetic computes it for \<open>v < 100\<close>: the exact
      \<open>\<lfloor>18 v / 5\<rfloor>\<close>, but one less at 35 and 70, where the rounded product falls just
      below the integer\<close>
  "hue_degrees v = (if v = 35 \<or> v = 70 then 18 * v div 5 - 1 else 18 * v div 5)"

definition claimed_hue :: "nat \<Rightarrow> int" where
  \<comment> \<open>\<open>\<lfloor>v / 100 \<times> 360\<rfloor>\<close> in exact arithmetic\<close>
  "claimed_hue v = \<lfloor>(of_nat v :: rat) / 100 * 360\<rfloor>"


definition hue_js :: "nat \<Rightarrow> number" where
  "hue_js v = Math_floor (js_mul (js_div (Num (of_nat v)) (Num 100)) (Num 360))"


definition is_NaN :: "number \<Rightarrow> bool" where
  "is_NaN x = (case x of NaN \<Rightarrow> True | Num _ \<Rightarrow> False)"

definition numericTraits ::
  "ZombieDetails \<Rightarrow> number \<times> number \<times> number \<times> number \<times> number \<times> number" where
  "numericTraits z =
     (headChoice z, eyeChoice z, shirtChoice z,
      skinColorChoice z, eyeColorChoice z, clothesColorChoice z)"

definition event_of :: "event_args \<Rightarrow> NewZombieEvent" where
  \<comment> \<open>the object the source builds from the arguments of a log\<close>
  "event_of a = \<lparr> ev_zombieId = arg_zombieId a, ev_name = arg_name a, ev_dna = arg_dna a \<rparr>"

definition events_of :: "log list \<Rightarrow> NewZombieEvent list" where
  \<comment> \<open>one event for each log that carries arguments, in the order of the logs\<close>
  "events_of logs = map event_of (List.map_filter log_args logs)"

definition record_event :: "NewZombieEvent \<Rightarrow> NewZombieEvent list \<Rightarrow> error + NewZombieEvent list" where
  \<comment> \<open>a callback that notes each event it is invoked with\<close>
  "record_event ev seen = Inr (seen @ [ev])"


fun deliver_events ::
  "(NewZombieEvent \<Rightarrow> 's \<Rightarrow> error + 's) \<Rightarrow> NewZombieEvent list \<Rightarrow> 's \<Rightarrow> error + 's" where
  \<comment> \<open>the callback invoked on each event in turn, up to the first invocation that throws\<close>
  "deliver_events callback [] s = Inr s"
| "deliver_events callback (ev # evs) s =
     (case callback ev s of Inl e \<Rightarrow> Inl e | Inr s' \<Rightarrow> deliver_events callback evs s')"

definition decodable :: "log \<Rightarrow> bool" where
  \<comment> \<open>a log without arguments, or one whose three arguments are all defined\<close>
  "decodable l =
     (case log_args l of
        None \<Rightarrow> True
      | Some a \<Rightarrow> arg_zombieId a \<noteq> None \<and> arg_name a \<noteq> None \<and> arg_dna a \<noteq> None)"

definition new_calls ::
  "('w, 'req) run_state \<Rightarrow> ('w, 'req) run_state \<Rightarrow> ('req call \<times> error option) list" where
  "new_calls s s' = drop (length (calls s)) (calls s')"

definition propagates :: "error + 'a \<Rightarrow> ('c \<times> error option) list \<Rightarrow> bool" where
  \<comment> \<open>the outcome is the error of the last primitive invoked, no primitive was invoked
      after one that raised, and without an error none raised\<close>
  "propagates r new =
     (case r of
        Inl e \<Rightarrow> new \<noteq> [] \<and> snd (last new) = Some e \<and> list_all (\<lambda>c. snd c = None) (butlast new)
      | Inr _ \<Rightarrow> list_all (\<lambda>c. snd c = None) new)"


section \<open>Evaluating binary64 arithmetic\<close>


lemma bitlen_numeral_simps:
  "bitlen 1 = 1"
  "bitlen (numeral (Num.Bit0 n)) = bitlen (numeral n) + 1"
  "bitlen (numeral (Num.Bit1 n)) = bitlen (numeral n) + 1"
  "bitlen (numeral Num.One) = 1"
  by (subst compute_bitlen, simp)+

lemma floor_rat_numeral_div:
  "\<lfloor>numeral a / numeral b :: rat\<rfloor> = numeral a div numeral b"
  by (metis floor_divide_of_int_eq of_int_numeral)

lemma ceiling_rat_numeral_div:
  "\<lceil>numeral a / numeral b :: rat\<rceil> = - (- numeral a div numeral b)"
  using ceiling_divide_eq_div[of "numeral a" "numeral b", where ?'a = rat] by simp

lemmas fl64_eval = fl64_def ilog2_def round_half_even_def bitlen_numeral_simps Let_def
  floor_rat_numeral_div ceiling_rat_numeral_div



declare digits10.simps [simp del]

lemma digit_val_digit_char: "d < 10 \<Longrightarrow> digit_val (digit_char d) = Some d"
proof -
  assume "d < 10"
  then have "d \<in> {0,1,2,3,4,5,6,7,8,9}" by auto
  then show ?thesis
    by (auto simp: digit_char_def digit_val_def)
qed

lemma digit_char_decimal: "is_radix_digit 10 (digit_char d)"
proof -
  have "digit_char d = digit_char (d mod 10)"
    by (simp add: digit_char_def)
  moreover have "digit_val (digit_char (d mod 10)) = Some (d mod 10)"
    by (rule digit_val_digit_char) simp
  ultimately show ?thesis
    by (simp add: is_radix_digit_def)
qed

lemma decimal_digit_val: "is_radix_digit 10 c \<Longrightarrow> \<exists>d<10. digit_val c = Some d"
  by (cases "digit_val c") (auto simp: is_radix_digit_def)

lemma radix_value_snoc:
  "radix_value r (s @ [c]) =
     (case digit_val c of Some d \<Rightarrow> radix_value r s * r + d | None \<Rightarrow> radix_value r s)"
  by (simp add: radix_value_def split: option.splits)

lemma radix_value_Nil: "radix_value r [] = 0"
  by (simp add: radix_value_def)

lemma is_decimal_digits10: "is_decimal (digits10 n)"
proof (induction n rule: digits10.induct)
  case (1 n)
  show ?case
  proof (cases "n < 10")
    case True
    then show ?thesis
      by (subst digits10.simps) (simp add: is_decimal_def digit_char_decimal)
  next
    case False
    with 1 show ?thesis
      by (subst digits10.simps) (simp add: is_decimal_def digit_char_decimal)
  qed
qed

lemma radix_value_digits10: "radix_value 10 (digits10 n) = n"
proof (induction n rule: digits10.induct)
  case (1 n)
  show ?case
  proof (cases "n < 10")
    case True
    then show ?thesis
      by (subst digits10.simps) (simp add: radix_value_def digit_val_digit_char)
  next
    case False
    then have "radix_value 10 (digits10 (n div 10)) = n div 10"
      using 1 by simp
    with False show ?thesis
      by (subst digits10.simps)
         (simp add: radix_value_snoc digit_val_digit_char)
  qed
qed

lemma length_digits10_le: "n < 10 ^ k \<Longrightarrow> 0 < k \<Longrightarrow> length (digits10 n) \<le> k"
proof (induction n arbitrary: k rule: digits10.induct)
  case (1 n)
  show ?case
  proof (cases "n < 10")
    case True
    with 1 show ?thesis
      by (subst digits10.simps) simp
  next
    case False
    with "1.prems" have k: "1 < k"
      by (cases "k = 1") auto
    then obtain j where j: "k = Suc j" "0 < j"
      by (cases k) auto
    with "1.prems" have "n div 10 < 10 ^ j"
      by (simp add: less_mult_imp_div_less mult.commute)
    with 1 False j have "length (digits10 (n div 10)) \<le> j"
      by blast
    with False j show ?thesis
      by (subst digits10.simps) simp
  qed
qed

lemma radix_value_append:
  "is_decimal s2 \<Longrightarrow>
   radix_value 10 (s1 @ s2) = radix_value 10 s1 * 10 ^ length s2 + radix_value 10 s2"
proof (induction s2 rule: rev_induct)
  case Nil
  then show ?case by (simp add: radix_value_Nil)
next
  case (snoc c s2)
  then have dec: "is_decimal s2" and c: "is_radix_digit 10 c"
    by (simp_all add: is_decimal_def)
  from c obtain d where d: "digit_val c = Some d"
    using decimal_digit_val by blast
  have "radix_value 10 ((s1 @ s2) @ [c]) = radix_value 10 (s1 @ s2) * 10 + d"
    by (simp only: radix_value_snoc d option.case)
  moreover have "radix_value 10 (s2 @ [c]) = radix_value 10 s2 * 10 + d"
    by (simp only: radix_value_snoc d option.case)
  ultimately show ?case
    using snoc.IH [OF dec] by (simp add: algebra_simps)
qed

lemma radix_value_less: "is_decimal s \<Longrightarrow> radix_value 10 s < 10 ^ length s"
proof (induction s rule: rev_induct)
  case Nil
  then show ?case by (simp add: radix_value_Nil)
next
  case (snoc c s)
  then have dec: "is_decimal s" and c: "is_radix_digit 10 c"
    by (simp_all add: is_decimal_def)
  from c obtain d where d: "digit_val c = Some d" "d < 10"
    using decimal_digit_val by blast
  have "radix_value 10 (s @ [c]) = radix_value 10 s * 10 + d"
    by (simp only: radix_value_snoc d option.case)
  moreover have "radix_value 10 s + 1 \<le> 10 ^ length s"
    using snoc.IH [OF dec] by simp
  then have "(radix_value 10 s + 1) * 10 \<le> 10 ^ length s * 10"
    by (rule mult_le_mono1)
  ultimately show ?case
    using d by simp
qed


lemma is_decimal_append: "is_decimal (s1 @ s2) \<longleftrightarrow> is_decimal s1 \<and> is_decimal s2"
  by (simp add: is_decimal_def)

lemma is_decimal_take: "is_decimal s \<Longrightarrow> is_decimal (take k s)"
  by (metis append_take_drop_id is_decimal_append)

lemma is_decimal_drop: "is_decimal s \<Longrightarrow> is_decimal (drop k s)"
  by (metis append_take_drop_id is_decimal_append)

lemma substring_take_drop:
  "a \<le> b \<Longrightarrow> b \<le> length s \<Longrightarrow> substring a b s = take (b - a) (drop a s)"
  by (simp add: substring_def Let_def min_def max_def)

lemma radix_value_substring:
  assumes dec: "is_decimal s" and ab: "a \<le> b" and b: "b \<le> length s"
  shows "radix_value 10 (substring a b s) =
           (radix_value 10 s div 10 ^ (length s - b)) mod 10 ^ (b - a)"
proof -
  define pre where "pre = take a s"
  define mid where "mid = take (b - a) (drop a s)"
  define post where "post = drop b s"
  have split: "s = (pre @ mid) @ post"
    using ab b unfolding pre_def mid_def post_def
    by (metis append_take_drop_id drop_drop add.commute le_add_diff_inverse append.assoc)
  have dmid: "is_decimal mid" and dpost: "is_decimal post"
    using dec by (simp_all add: mid_def post_def is_decimal_take is_decimal_drop)
  have lmid: "length mid = b - a" and lpost: "length post = length s - b"
    using ab b by (simp_all add: mid_def post_def)
  have v: "radix_value 10 s =
             (radix_value 10 pre * 10 ^ (b - a) + radix_value 10 mid) * 10 ^ (length s - b)
             + radix_value 10 post"
    by (subst split) (simp only: radix_value_append [OF dpost] radix_value_append [OF dmid] lmid lpost)
  have "radix_value 10 post < 10 ^ (length s - b)"
    using radix_value_less [OF dpost] by (simp only: lpost)
  with v have "radix_value 10 s div 10 ^ (length s - b) =
                 radix_value 10 pre * 10 ^ (b - a) + radix_value 10 mid"
    by simp
  moreover have "radix_value 10 mid < 10 ^ (b - a)"
    using radix_value_less [OF dmid] by (simp only: lmid)
  ultimately show ?thesis
    using ab b by (simp add: substring_take_drop mid_def [symmetric])
qed

lemma decimal_digit_plain:
  "is_radix_digit 10 x \<Longrightarrow>
     \<not> is_white_space x \<and> x \<noteq> CHR ''-'' \<and> x \<noteq> CHR ''+'' \<and> x \<noteq> CHR ''x'' \<and> x \<noteq> CHR ''X''"
  by (auto simp: is_radix_digit_def is_white_space_def digit_val_def split: if_splits)

lemma takeWhile_all: "\<forall>x\<in>set xs. P x \<Longrightarrow> takeWhile P xs = xs"
  by simp

lemma parseInt_decimal:
  assumes dec: "is_decimal s" and ne: "s \<noteq> []"
  shows "parseInt s = Num (of_nat (radix_value 10 s))"
proof -
  from ne obtain c r where s: "s = c # r"
    by (cases s) auto
  with dec have c: "is_radix_digit 10 c" and r: "list_all (is_radix_digit 10) r"
    by (simp_all add: is_decimal_def)
  have tw: "takeWhile (is_radix_digit 10) r = r"
    using r by (simp add: list_all_iff)
  show ?thesis
  proof (cases r)
    case Nil
    then show ?thesis
      using decimal_digit_plain [OF c] c
      by (simp add: parseInt_def s)
  next
    case (Cons d r')
    with r have d: "is_radix_digit 10 d" and "list_all (is_radix_digit 10) r'"
      by simp_all
    then show ?thesis
      using decimal_digit_plain [OF c] decimal_digit_plain [OF d] c d
      by (simp add: parseInt_def s Cons takeWhile_all list_all_iff)
  qed
qed

lemma parseInt_field:
  assumes dec: "is_decimal s" and ab: "a < b" and b: "b \<le> length s"
  shows "parseInt (substring a b s) =
           Num (of_nat ((radix_value 10 s div 10 ^ (length s - b)) mod 10 ^ (b - a)))"
proof -
  have "is_decimal (substring a b s)"
    using dec ab b by (simp add: substring_take_drop is_decimal_take is_decimal_drop)
  moreover have "substring a b s \<noteq> []"
    using ab b by (simp add: substring_take_drop)
  ultimately show ?thesis
    using radix_value_substring [OF dec _ b, of a] ab
    by (simp add: parseInt_decimal)
qed


lemma concat_replicate_single: "concat (replicate k [c]) = replicate k c"
  by (induction k) simp_all

lemma padStart_zero:
  "padStart n ''0'' s = replicate (n - length s) CHR ''0'' @ s"
  by (simp add: padStart_def Let_def concat_replicate_single)

lemma is_decimal_zeros: "is_decimal (replicate k CHR ''0'')"
  by (simp add: is_decimal_def list_all_iff is_radix_digit_def digit_val_def)

lemma radix_value_zeros: "radix_value 10 (replicate k CHR ''0'') = 0"
  by (induction k) (simp_all add: radix_value_def digit_val_def)

lemma toString_nonneg: "0 \<le> dna \<Longrightarrow> toString dna = digits10 (nat dna)"
  by (simp add: toString_def)

lemma dnaStr_padded:
  assumes "0 \<le> dna" and "dna < 10 ^ 16"
  shows "is_decimal (padStart 16 ''0'' (toString dna))"
    and "length (padStart 16 ''0'' (toString dna)) = 16"
    and "radix_value 10 (padStart 16 ''0'' (toString dna)) = nat dna"
proof -
  have "nat dna < 10 ^ 16"
    using assms by (simp add: nat_less_iff)
  then have len: "length (digits10 (nat dna)) \<le> 16"
    by (rule length_digits10_le) simp
  show "is_decimal (padStart 16 ''0'' (toString dna))"
    using assms by (simp add: toString_nonneg padStart_zero is_decimal_append
        is_decimal_zeros is_decimal_digits10)
  show "length (padStart 16 ''0'' (toString dna)) = 16"
    using assms len by (simp add: toString_nonneg padStart_zero)
  show "radix_value 10 (padStart 16 ''0'' (toString dna)) = nat dna"
    using assms by (simp add: toString_nonneg padStart_zero radix_value_append
        is_decimal_digits10 radix_value_zeros radix_value_digits10)
qed

lemma dnaStr_long:
  assumes "10 ^ 16 \<le> dna"
  shows "padStart 16 ''0'' (toString dna) = toString dna"
    and "is_decimal (toString dna)"
    and "16 < length (toString dna)"
    and "radix_value 10 (toString dna) = nat dna"
proof -
  have nn: "0 \<le> dna"
    using assms by (rule order_trans [rotated]) simp
  have "nat dna < 10 ^ length (digits10 (nat dna))"
    using radix_value_less [OF is_decimal_digits10, of "nat dna"]
    by (simp add: radix_value_digits10)
  moreover have "(10::nat) ^ 16 \<le> nat dna"
    using assms by (simp add: le_nat_iff)
  ultimately have "(10::nat) ^ 16 < 10 ^ length (digits10 (nat dna))"
    by (metis le_less_trans)
  then have "16 < length (digits10 (nat dna))"
    by (rule power_less_imp_less_exp [rotated]) simp
  then show len: "16 < length (toString dna)"
    using nn by (simp add: toString_nonneg)
  then show "padStart 16 ''0'' (toString dna) = toString dna"
    by (simp add: padStart_def)
  show "is_decimal (toString dna)"
    using nn by (simp add: toString_nonneg is_decimal_digits10)
  show "radix_value 10 (toString dna) = nat dna"
    using nn by (simp add: toString_nonneg radix_value_digits10)
qed



lemma upt_0_numeral: "[0..<numeral n] = 0 # [1..<numeral n]"
  by (simp add: upt_conv_Cons)

lemma upt_1_numeral:
  "[1..<numeral (Num.Bit0 n)] = 1 # [2..<numeral (Num.Bit0 n)]"
  "[1..<numeral (Num.Bit1 n)] = 1 # [2..<numeral (Num.Bit1 n)]"
  by (simp_all add: upt_conv_Cons numeral_2_eq_2)

lemmas upt_from_0 = upt_0_numeral upt_1_numeral

lemma fl64_small:
  "fl64 1 = 1" "fl64 2 = 2" "fl64 3 = 3" "fl64 4 = 4" "fl64 5 = 5" "fl64 6 = 6"
  "fl64 7 = 7" "fl64 8 = 8" "fl64 9 = 9" "fl64 10 = 10" "fl64 11 = 11"
  by (simp_all add: fl64_eval)

lemma js_rem_nat:
  assumes "0 < m"
  shows "js_rem (Num (of_nat v)) (Num (of_nat m)) = Num (of_nat (v mod m))"
proof -
  have "\<not> (of_nat v :: rat) / of_nat m < 0"
    by (simp add: not_less)
  then have "trunc (of_nat v / of_nat m) = int (v div m)"
    by (simp only: trunc_def if_False floor_divide_of_nat_eq)
  moreover have "(of_nat v :: rat) - of_nat m * of_nat (v div m) = of_nat (v mod m)"
    by (metis add_diff_cancel_left' mult_div_mod_eq of_nat_add of_nat_mult)
  ultimately show ?thesis
    using assms by simp
qed

lemma fl64_succ_small:
  assumes "n < 11"
  shows "fl64 (of_nat n + 1) = of_nat n + 1"
proof -
  have "list_all (\<lambda>n. fl64 (of_nat n + 1) = of_nat n + 1) [0..<11]"
    by (simp add: upt_from_0 fl64_small del: One_nat_def)
  then have "\<forall>n\<in>{0..<11}. fl64 (of_nat n + 1) = of_nat n + 1"
    by (simp only: list_all_iff set_upt)
  with assms show ?thesis
    by (metis atLeastLessThan_iff le0)
qed

lemma choice_nat:
  assumes "0 < m" and "m \<le> 11"
  shows "js_add (js_rem (Num (of_nat v)) (Num (of_nat m))) (Num 1) = Num (of_nat (v mod m + 1))"
proof -
  have small: "v mod m < 11"
    using assms by (meson mod_less_divisor less_le_trans)
  have "js_add (js_rem (Num (of_nat v)) (Num (of_nat m))) (Num 1) =
          js_add (Num (of_nat (v mod m))) (Num 1)"
    by (simp only: js_rem_nat [OF assms(1)])
  also have "\<dots> = Num (fl64 (of_nat (v mod m) + 1))"
    by simp
  also have "\<dots> = Num (of_nat (v mod m + 1))"
    by (simp add: fl64_succ_small [OF small])
  finally show ?thesis .
qed

lemma hue_table:
  "hue_js 0 = Num 0" "hue_js 1 = Num 3" "hue_js 2 = Num 7" "hue_js 3 = Num 10"
  "hue_js 4 = Num 14" "hue_js 5 = Num 18" "hue_js 6 = Num 21" "hue_js 7 = Num 25"
  "hue_js 8 = Num 28" "hue_js 9 = Num 32" "hue_js 10 = Num 36" "hue_js 11 = Num 39"
  "hue_js 12 = Num 43" "hue_js 13 = Num 46" "hue_js 14 = Num 50" "hue_js 15 = Num 54"
  "hue_js 16 = Num 57" "hue_js 17 = Num 61" "hue_js 18 = Num 64" "hue_js 19 = Num 68"
  "hue_js 20 = Num 72" "hue_js 21 = Num 75" "hue_js 22 = Num 79" "hue_js 23 = Num 82"
  "hue_js 24 = Num 86" "hue_js 25 = Num 90" "hue_js 26 = Num 93" "hue_js 27 = Num 97"
  "hue_js 28 = Num 100" "hue_js 29 = Num 104" "hue_js 30 = Num 108" "hue_js 31 = Num 111"
  "hue_js 32 = Num 115" "hue_js 33 = Num 118" "hue_js 34 = Num 122" "hue_js 35 = Num 125"
  "hue_js 36 = Num 129" "hue_js 37 = Num 133" "hue_js 38 = Num 136" "hue_js 39 = Num 140"
  "hue_js 40 = Num 144" "hue_js 41 = Num 147" "hue_js 42 = Num 151" "hue_js 43 = Num 154"
  "hue_js 44 = Num 158" "hue_js 45 = Num 162" "hue_js 46 = Num 165" "hue_js 47 = Num 169"
  "hue_js 48 = Num 172" "hue_js 49 = Num 176" "hue_js 50 = Num 180" "hue_js 51 = Num 183"
  "hue_js 52 = Num 187" "hue_js 53 = Num 190" "hue_js 54 = Num 194" "hue_js 55 = Num 198"
  "hue_js 56 = Num 201" "hue_js 57 = Num 205" "hue_js 58 = Num 208" "hue_js 59 = Num 212"
  "hue_js 60 = Num 216" "hue_js 61 = Num 219" "hue_js 62 = Num 223" "hue_js 63 = Num 226"
  "hue_js 64 = Num 230" "hue_js 65 = Num 234" "hue_js 66 = Num 237" "hue_js 67 = Num 241"
  "hue_js 68 = Num 244" "hue_js 69 = Num 248" "hue_js 70 = Num 251" "hue_js 71 = Num 255"
  "hue_js 72 = Num 259" "hue_js 73 = Num 262" "hue_js 74 = Num 266" "hue_js 75 = Num 270"
  "hue_js 76 = Num 273" "hue_js 77 = Num 277" "hue_js 78 = Num 280" "hue_js 79 = Num 284"
  "hue_js 80 = Num 288" "hue_js 81 = Num 291" "hue_js 82 = Num 295" "hue_js 83 = Num 298"
  "hue_js 84 = Num 302" "hue_js 85 = Num 306" "hue_js 86 = Num 309" "hue_js 87 = Num 313"
  "hue_js 88 = Num 316" "hue_js 89 = Num 320" "hue_js 90 = Num 324" "hue_js 91 = Num 327"
  "hue_js 92 = Num 331" "hue_js 93 = Num 334" "hue_js 94 = Num 338" "hue_js 95 = Num 342"
  "hue_js 96 = Num 345" "hue_js 97 = Num 349" "hue_js 98 = Num 352" "hue_js 99 = Num 356"
  by (simp_all add: hue_js_def fl64_eval)

lemma hue_of_nat:
  assumes "v < 100"
  shows "Math_floor (js_mul (js_div (Num (of_nat v)) (Num 100)) (Num 360)) =
           Num (of_nat (hue_degrees v))"
proof -
  have "list_all (\<lambda>v. hue_js v = Num (of_nat (hue_degrees v))) [0..<100]"
    by (simp add: upt_from_0 hue_table hue_degrees_def del: One_nat_def)
  then have "\<forall>v\<in>{0..<100}. hue_js v = Num (of_nat (hue_degrees v))"
    by (simp only: list_all_iff set_upt)
  with assms have "hue_js v = Num (of_nat (hue_degrees v))"
    by (metis atLeastLessThan_iff le0)
  then show ?thesis
    by (simp only: hue_js_def)
qed


section \<open>The fields of a decimal DNA string\<close>


lemma choices:
  "js_add (js_rem (Num (of_nat v)) (Num 7)) (Num 1) = Num (of_nat (v mod 7 + 1))"
  "js_add (js_rem (Num (of_nat v)) (Num 11)) (Num 1) = Num (of_nat (v mod 11 + 1))"
  "js_add (js_rem (Num (of_nat v)) (Num 6)) (Num 1) = Num (of_nat (v mod 6 + 1))"
  using choice_nat [of 7 v] choice_nat [of 11 v] choice_nat [of 6 v] by simp_all

lemma dna_field_less: "b = a + 2 \<Longrightarrow> dna_field n a b d < 100"
  by (simp add: dna_field_def)

lemma parseInt_dna_field:
  assumes "is_decimal s" and "a < b" and "b \<le> length s"
  shows "parseInt (substring a b s) = Num (of_nat (dna_field (length s) a b (radix_value 10 s)))"
  using parseInt_field [OF assms] by (simp only: dna_field_def)

lemma generateZombie_decimal:
  assumes dec: "is_decimal (padStart 16 ''0'' (toString dna))"
      and len: "12 \<le> length (padStart 16 ''0'' (toString dna))"
      and n: "n = length (padStart 16 ''0'' (toString dna))"
      and d: "d = radix_value 10 (padStart 16 ''0'' (toString dna))"
  shows "fst (generateZombie con zid name dna) =
     \<lparr> headChoice = Num (of_nat (dna_field n 0 2 d mod 7 + 1)),
       eyeChoice = Num (of_nat (dna_field n 2 4 d mod 11 + 1)),
       shirtChoice = Num (of_nat (dna_field n 4 6 d mod 6 + 1)),
       skinColorChoice = Num (of_nat (hue_degrees (dna_field n 6 8 d))),
       eyeColorChoice = Num (of_nat (hue_degrees (dna_field n 8 10 d))),
       clothesColorChoice = Num (of_nat (hue_degrees (dna_field n 10 12 d))),
       zombieName = name,
       zombieDescription = ''A Level 1 CryptoZombie'' \<rparr>"
proof -
  let ?s = "padStart 16 ''0'' (toString dna)"
  have f: "parseInt (substring 0 2 ?s) = Num (of_nat (dna_field n 0 2 d))"
    "parseInt (substring 2 4 ?s) = Num (of_nat (dna_field n 2 4 d))"
    "parseInt (substring 4 6 ?s) = Num (of_nat (dna_field n 4 6 d))"
    "parseInt (substring 6 8 ?s) = Num (of_nat (dna_field n 6 8 d))"
    "parseInt (substring 8 10 ?s) = Num (of_nat (dna_field n 8 10 d))"
    "parseInt (substring 10 12 ?s) = Num (of_nat (dna_field n 10 12 d))"
    using len by (simp_all only: n d) (rule parseInt_dna_field [OF dec]; simp)+
  show ?thesis
    unfolding generateZombie_def Let_def fst_conv f choices
    by (simp only: hue_of_nat dna_field_less)
qed


lemma substring_take:
  assumes "a \<le> b" and "b \<le> k"
  shows "substring a b (take k s) = substring a b s"
proof (cases "k \<le> length s")
  case True
  with assms show ?thesis
    by (simp add: substring_def Let_def min_def max_def drop_take)
next
  case False
  then show ?thesis by simp
qed


lemma eval_digits10:
  "digits10 (numeral k) =
     (if (numeral k :: nat) < 10 then [digit_char (numeral k)]
      else digits10 (numeral k div 10) @ [digit_char (numeral k mod 10)])"
  "digits10 0 = ''0''" "digits10 (Suc 0) = ''1''"
  by (subst digits10.simps, simp add: digit_char_def)+



lemma replicate_numeral_Cons: "replicate (numeral k) c = c # replicate (pred_numeral k) c"
  by (simp add: numeral_eq_Suc)

lemmas eval_string = toString_def eval_digits10 digit_char_def padStart_zero
  replicate_numeral_Cons


lemma decimal_char_cases:
  assumes "is_radix_digit 10 c"
  shows "c = CHR ''0'' \<or> c = CHR ''1'' \<or> c = CHR ''2'' \<or> c = CHR ''3'' \<or> c = CHR ''4'' \<or>
         c = CHR ''5'' \<or> c = CHR ''6'' \<or> c = CHR ''7'' \<or> c = CHR ''8'' \<or> c = CHR ''9''"
  using assms unfolding is_radix_digit_def digit_val_def
  by (simp split: if_splits)

lemma decimal_char_roundtrip:
  assumes "is_radix_digit 10 c"
  shows "digit_char (radix_value 10 [c]) = c"
  using decimal_char_cases [OF assms]
  by (elim disjE) (simp_all add: radix_value_def digit_val_def digit_char_def)

lemma decimal_string_nth:
  assumes dec: "is_decimal s" and k: "k < length s"
  shows "s ! k = digit_char (dna_field (length s) k (Suc k) (radix_value 10 s))"
proof -
  have sub: "substring k (Suc k) s = [s ! k]"
    using k by (simp add: substring_take_drop Cons_nth_drop_Suc [symmetric])
  have "is_radix_digit 10 (s ! k)"
    using dec k by (simp add: is_decimal_def list_all_length)
  then have "s ! k = digit_char (radix_value 10 [s ! k])"
    by (simp only: decimal_char_roundtrip)
  also have "radix_value 10 [s ! k] = dna_field (length s) k (Suc k) (radix_value 10 s)"
    using radix_value_substring [OF dec, of k "Suc k"] k
    by (simp add: sub dna_field_def)
  finally show ?thesis .
qed

text \<open>
  The zero-padded string of a DNA below \<open>10\<^sup>1\<^sup>6\<close> has 16 characters, and its \<open>k\<close>-th
  character is the decimal digit \<open>\<lfloor>dna / 10\<^sup>1\<^sup>5\<^sup>-\<^sup>k\<rfloor> mod 10\<close>. So
  \<open>dna_field 16 a b dna\<close> is the decimal value of its characters \<open>[a, b)\<close>.
\<close>

lemma padded_dna_digits:
  assumes "0 \<le> dna" and "dna < 10 ^ 16" and "k < 16"
  shows "length (padStart 16 ''0'' (toString dna)) = 16"
    and "padStart 16 ''0'' (toString dna) ! k = digit_char (dna_field 16 k (Suc k) (nat dna))"
  using decimal_string_nth [of "padStart 16 ''0'' (toString dna)" k] dnaStr_padded [OF assms(1,2)]
    assms(3)
  by simp_all




section \<open>The trait deriver: claims\<close>

text \<open>
  C1 (as amended). For a DNA in \<open>[0, 10\<^sup>1\<^sup>6)\<close>, any name and any id, \<open>generateZombie\<close>
  returns exactly this record: the three choices are the values of the characters
  \<open>[0,2)\<close>, \<open>[2,4)\<close>, \<open>[4,6)\<close> of the zero-padded 16-character decimal string, taken
  modulo 7, 11, 6, plus one; the three colours are \<open>hue_degrees\<close> of the values of the
  characters \<open>[6,8)\<close>, \<open>[8,10)\<close>, \<open>[10,12)\<close>, that is \<open>\<lfloor>v / 100 \<times> 360\<rfloor>\<close> as binary64
  arithmetic computes it (the exact floor, except 125 at 35 and 251 at 70); the name is
  the argument and the description the constant string.
\<close>

theorem generateZombie_record:
  assumes "0 \<le> dna" and "dna < 10 ^ 16"
  shows "fst (generateZombie con zid name dna) =
     \<lparr> headChoice = Num (of_nat (dna_field 16 0 2 (nat dna) mod 7 + 1)),
       eyeChoice = Num (of_nat (dna_field 16 2 4 (nat dna) mod 11 + 1)),
       shirtChoice = Num (of_nat (dna_field 16 4 6 (nat dna) mod 6 + 1)),
       skinColorChoice = Num (of_nat (hue_degrees (dna_field 16 6 8 (nat dna)))),
       eyeColorChoice = Num (of_nat (hue_degrees (dna_field 16 8 10 (nat dna)))),
       clothesColorChoice = Num (of_nat (hue_degrees (dna_field 16 10 12 (nat dna)))),
       zombieName = name,
       zombieDescription = ''A Level 1 CryptoZombie'' \<rparr>"
  using dnaStr_padded [OF assms]
  by (intro generateZombie_decimal) simp_all

theorem generateZombie_record_witness:
  "(0::int) \<le> 1234567890123456 \<and> (1234567890123456::int) < 10 ^ 16 \<and>
   fst (generateZombie [] 7 ''Rex'' 1234567890123456) =
     \<lparr> headChoice = Num 6, eyeChoice = Num 2, shirtChoice = Num 3,
       skinColorChoice = Num 280, eyeColorChoice = Num 324, clothesColorChoice = Num 43,
       zombieName = ''Rex'', zombieDescription = ''A Level 1 CryptoZombie'' \<rparr>"
  using generateZombie_record [of 1234567890123456 "[]" 7 "''Rex''"]
  by (simp add: dna_field_def hue_degrees_def)

text \<open>
  The claim C1 as it is written gives the colours as \<open>\<lfloor>v / 100 \<times> 360\<rfloor>\<close>. For the DNA
  3500000000 the characters \<open>[6,8)\<close> are 35 and this floor is 126, but the function
  returns 125: the double nearest to 0.35 lies below 0.35, and its product with 360
  rounds to the double just below 126.
\<close>

theorem generateZombie_exact_floor_counterexample:
  "skinColorChoice (fst (generateZombie [] 7 ''Rex'' 3500000000)) = Num 125 \<and>
   claimed_hue (dna_field 16 6 8 3500000000) = 126 \<and>
   skinColorChoice (fst (generateZombie [] 7 ''Rex'' 3500000000))
     \<noteq> Num (of_int (claimed_hue (dna_field 16 6 8 3500000000)))"
proof -
  have "(0::int) \<le> 3500000000" and "(3500000000::int) < 10 ^ 16"
    by simp_all
  then have "is_decimal (padStart 16 ''0'' (toString 3500000000))"
    and "length (padStart 16 ''0'' (toString 3500000000)) = 16"
    and "radix_value 10 (padStart 16 ''0'' (toString 3500000000)) = nat 3500000000"
    by (rule dnaStr_padded)+
  then have "skinColorChoice (fst (generateZombie [] 7 ''Rex'' 3500000000)) =
      Num (of_nat (hue_degrees (dna_field 16 6 8 (nat 3500000000))))"
    by (subst generateZombie_decimal [where n = 16 and d = "nat 3500000000"]) simp_all
  then show ?thesis
    by (simp add: dna_field_def hue_degrees_def claimed_hue_def)
qed





text \<open>
  C3. The body of \<open>generateZombie\<close> holds no operation that can throw, so the model
  is a total function and every call returns. For a DNA in \<open>[0, 10\<^sup>1\<^sup>6)\<close> the record it
  returns is proper, with no \<^verbatim>\<open>NaN\<close> among the six numbers; it is the same whatever
  the console held before, and the only effect is one more line on the console.
\<close>

theorem generateZombie_returns_deterministic:
  assumes "0 \<le> dna" and "dna < 10 ^ 16"
  shows "fst (generateZombie con1 zid name dna) = fst (generateZombie con2 zid name dna) \<and>
         snd (generateZombie con1 zid name dna) =
           con1 @ [ConsoleLog ''Generated zombie:'' (fst (generateZombie con1 zid name dna))] \<and>
         \<not> is_NaN (headChoice (fst (generateZombie con1 zid name dna))) \<and>
         \<not> is_NaN (eyeChoice (fst (generateZombie con1 zid name dna))) \<and>
         \<not> is_NaN (shirtChoice (fst (generateZombie con1 zid name dna))) \<and>
         \<not> is_NaN (skinColorChoice (fst (generateZombie con1 zid name dna))) \<and>
         \<not> is_NaN (eyeColorChoice (fst (generateZombie con1 zid name dna))) \<and>
         \<not> is_NaN (clothesColorChoice (fst (generateZombie con1 zid name dna)))"
proof -
  have rec: "fst (generateZombie con zid name dna) =
     \<lparr> headChoice = Num (of_nat (dna_field 16 0 2 (nat dna) mod 7 + 1)),
       eyeChoice = Num (of_nat (dna_field 16 2 4 (nat dna) mod 11 + 1)),
       shirtChoice = Num (of_nat (dna_field 16 4 6 (nat dna) mod 6 + 1)),
       skinColorChoice = Num (of_nat (hue_degrees (dna_field 16 6 8 (nat dna)))),
       eyeColorChoice = Num (of_nat (hue_degrees (dna_field 16 8 10 (nat dna)))),
       clothesColorChoice = Num (of_nat (hue_degrees (dna_field 16 10 12 (nat dna)))),
       zombieName = name,
       zombieDescription = ''A Level 1 CryptoZombie'' \<rparr>" for con
    using dnaStr_padded [OF assms] by (intro generateZombie_decimal) simp_all
  have "snd (generateZombie con1 zid name dna) =
          con1 @ [ConsoleLog ''Generated zombie:'' (fst (generateZombie con1 zid name dna))]"
    by (simp add: generateZombie_def Let_def)
  then show ?thesis
    by (simp add: rec is_NaN_def)
qed

theorem generateZombie_returns_deterministic_witness:
  "(0::int) \<le> 0 \<and> (0::int) < 10 ^ 16 \<and>
   fst (generateZombie [] 7 ''Rex'' 0) =
     fst (generateZombie [ConsoleError ''Error getting zombie:'' (Error ''x'')] 7 ''Rex'' 0) \<and>
   \<not> is_NaN (headChoice (fst (generateZombie [] 7 ''Rex'' 0))) \<and>
   \<not> is_NaN (clothesColorChoice (fst (generateZombie [] 7 ''Rex'' 0)))"
proof -
  have h: "(0::int) \<le> 0" "(0::int) < 10 ^ 16"
    by simp_all
  show ?thesis
    using h generateZombie_returns_deterministic
      [OF h, of "[]" 7 "''Rex''" "[ConsoleError ''Error getting zombie:'' (Error ''x'')]"]
    by blast
qed

text \<open>
  C4. The six numbers depend on nothing but the first twelve characters of the padded
  DNA string: two calls whose padded strings agree there return the same six numbers,
  whatever the ids, the names, the consoles and the last four digits are. With the same
  DNA in both calls this says that the name and the id have no influence.
\<close>

theorem numericTraits_depend_on_first_12_digits:
  assumes "take 12 (padStart 16 ''0'' (toString dna1)) = take 12 (padStart 16 ''0'' (toString dna2))"
  shows "numericTraits (fst (generateZombie con1 zid1 name1 dna1)) =
         numericTraits (fst (generateZombie con2 zid2 name2 dna2))"
proof -
  have "substring a b (padStart 16 ''0'' (toString dna1)) =
        substring a b (padStart 16 ''0'' (toString dna2))" if "a \<le> b" "b \<le> 12" for a b
    using substring_take [OF that, of "padStart 16 ''0'' (toString dna1)"]
      substring_take [OF that, of "padStart 16 ''0'' (toString dna2)"] assms
    by simp
  then show ?thesis
    by (simp add: numericTraits_def generateZombie_def Let_def)
qed

theorem numericTraits_depend_on_first_12_digits_witness:
  "take 12 (padStart 16 ''0'' (toString 1234567890120000)) =
     take 12 (padStart 16 ''0'' (toString 1234567890129999)) \<and>
   numericTraits (fst (generateZombie [] 1 ''Rex'' 1234567890120000)) =
     numericTraits (fst (generateZombie [ConsoleError ''e'' (Error ''x'')] 2 ''Max''
       1234567890129999))"
proof -
  have h: "take 12 (padStart 16 ''0'' (toString 1234567890120000)) =
      take 12 (padStart 16 ''0'' (toString 1234567890129999))"
    by (simp add: eval_string)
  show ?thesis
    using h numericTraits_depend_on_first_12_digits [OF h] by blast
qed

text \<open>
  C9. A DNA of more than 16 digits is not padded, and the function still returns a
  proper record: the six numbers come from the first twelve characters of the decimal
  representation, its most significant digits, as for a padded string; the digits
  after the twelfth have no influence.
\<close>

theorem generateZombie_long_dna:
  assumes "10 ^ 16 \<le> dna"
  shows "padStart 16 ''0'' (toString dna) = toString dna \<and>
         16 < length (toString dna) \<and>
         fst (generateZombie con zid name dna) =
           \<lparr> headChoice = Num (of_nat (dna_field (length (toString dna)) 0 2 (nat dna) mod 7 + 1)),
             eyeChoice = Num (of_nat (dna_field (length (toString dna)) 2 4 (nat dna) mod 11 + 1)),
             shirtChoice = Num (of_nat (dna_field (length (toString dna)) 4 6 (nat dna) mod 6 + 1)),
             skinColorChoice =
               Num (of_nat (hue_degrees (dna_field (length (toString dna)) 6 8 (nat dna)))),
             eyeColorChoice =
               Num (of_nat (hue_degrees (dna_field (length (toString dna)) 8 10 (nat dna)))),
             clothesColorChoice =
               Num (of_nat (hue_degrees (dna_field (length (toString dna)) 10 12 (nat dna)))),
             zombieName = name,
             zombieDescription = ''A Level 1 CryptoZombie'' \<rparr>"
proof -
  note long = dnaStr_long [OF assms]
  have "fst (generateZombie con zid name dna) =
           \<lparr> headChoice = Num (of_nat (dna_field (length (toString dna)) 0 2 (nat dna) mod 7 + 1)),
             eyeChoice = Num (of_nat (dna_field (length (toString dna)) 2 4 (nat dna) mod 11 + 1)),
             shirtChoice = Num (of_nat (dna_field (length (toString dna)) 4 6 (nat dna) mod 6 + 1)),
             skinColorChoice =
               Num (of_nat (hue_degrees (dna_field (length (toString dna)) 6 8 (nat dna)))),
             eyeColorChoice =
               Num (of_nat (hue_degrees (dna_field (length (toString dna)) 8 10 (nat dna)))),
             clothesColorChoice =
               Num (of_nat (hue_degrees (dna_field (length (toString dna)) 10 12 (nat dna)))),
             zombieName = name,
             zombieDescription = ''A Level 1 CryptoZombie'' \<rparr>"
    using long by (intro generateZombie_decimal) simp_all
  with long(1,3) show ?thesis
    by simp
qed

theorem generateZombie_long_dna_witness:
  "(10::int) ^ 16 \<le> 12345678901234567 \<and>
   padStart 16 ''0'' (toString 12345678901234567) = toString 12345678901234567 \<and>
   fst (generateZombie [] 7 ''Rex'' 12345678901234567) =
     \<lparr> headChoice = Num 6, eyeChoice = Num 2, shirtChoice = Num 3,
       skinColorChoice = Num 280, eyeColorChoice = Num 324, clothesColorChoice = Num 43,
       zombieName = ''Rex'', zombieDescription = ''A Level 1 CryptoZombie'' \<rparr>"
proof -
  have len: "length (toString 12345678901234567) = 17"
    by (simp add: eval_string)
  show ?thesis
    using generateZombie_long_dna [of 12345678901234567 "[]" 7 "''Rex''"]
    by (simp add: len dna_field_def hue_degrees_def)
qed

section \<open>The event subscription: claims\<close>

lemma events_of_Cons:
  "events_of (l # logs) =
     (case log_args l of None \<Rightarrow> events_of logs | Some a \<Rightarrow> event_of a # events_of logs)"
  by (simp add: events_of_def split: option.splits)

lemma events_of_Nil: "events_of [] = []"
  by (simp add: events_of_def)

lemma events_of_append: "events_of (xs @ ys) = events_of xs @ events_of ys"
  by (simp add: events_of_def map_filter_def)


lemma onLogs_append:
  "onLogs cb (pre @ post) s =
     (case onLogs cb pre s of Inl e \<Rightarrow> Inl e | Inr s' \<Rightarrow> onLogs cb post s')"
  by (induction pre arbitrary: s) (auto split: option.splits sum.splits)







text \<open>
  The claim C5 asks for a decode failure that is reported. The source reports none: a
  batch of one log without arguments and one log whose arguments are all undefined is
  processed without an error, the first log leaves no trace at all, and the callback
  receives the second with its undefined fields.
\<close>

theorem onLogs_reports_no_decode_failure_counterexample:
  "onLogs record_event
     [\<lparr> log_args = None \<rparr>,
      \<lparr> log_args = Some \<lparr> arg_zombieId = None, arg_name = None, arg_dna = None \<rparr> \<rparr>] [] =
   Inr [\<lparr> ev_zombieId = None, ev_name = None, ev_dna = None \<rparr>]"
  by (simp add: record_event_def)

lemma onLogs_decodable:
  "list_all decodable logs \<Longrightarrow>
     onLogs callback logs s = deliver_events callback (events_of logs) s"
proof (induction logs arbitrary: s)
  case Nil
  show ?case by (simp add: events_of_Nil)
next
  case (Cons l logs)
  then have IH: "onLogs callback logs s' = deliver_events callback (events_of logs) s'" for s'
    by simp
  show ?case
    by (cases "log_args l") (simp_all add: events_of_Cons event_of_def IH split: sum.splits)
qed

text \<open>
  C5 (as amended). A log without arguments is not reported as a decode failure: a
  batch that holds only this log returns without an error and leaves the state of the
  application as it was. It does not end the processing either. Whatever the callback
  and the other logs are, the batch, and any batch processed after it, behave as if
  the log had not been delivered; and in a batch whose other logs carry all three
  arguments the callback is invoked on the event of each of them in turn, up to an
  invocation that throws.
\<close>

theorem onLogs_absent_args_not_reported:
  assumes "log_args l = None"
  shows "onLogs callback [l] s = Inr s \<and>
         (case onLogs callback (pre @ l # post) s of
            Inl e \<Rightarrow> Inl e | Inr s' \<Rightarrow> onLogs callback later s') =
         (case onLogs callback (pre @ post) s of
            Inl e \<Rightarrow> Inl e | Inr s' \<Rightarrow> onLogs callback later s') \<and>
         (list_all decodable pre \<and> list_all decodable post \<longrightarrow>
            onLogs callback (pre @ l # post) s =
              deliver_events callback (events_of pre @ events_of post) s)"
proof -
  have skip: "onLogs callback (l # post) s' = onLogs callback post s'" for s'
    using assms by simp
  have same: "onLogs callback (pre @ l # post) s = onLogs callback (pre @ post) s"
    by (cases "onLogs callback pre s") (simp_all add: onLogs_append skip del: onLogs.simps)
  have "onLogs callback (pre @ post) s =
          deliver_events callback (events_of pre @ events_of post) s"
    if "list_all decodable pre" "list_all decodable post"
    using that onLogs_decodable [of "pre @ post" callback s]
    by (simp add: events_of_append)
  then show ?thesis
    using assms by (simp add: same)
qed

theorem onLogs_absent_args_not_reported_witness:
  "log_args \<lparr> log_args = None \<rparr> = None \<and>
   list_all decodable
     [\<lparr> log_args = Some \<lparr> arg_zombieId = Some 1, arg_name = Some ''Rex'', arg_dna = Some 11 \<rparr> \<rparr>] \<and>
   list_all decodable
     [\<lparr> log_args = Some \<lparr> arg_zombieId = Some 2, arg_name = Some ''Max'', arg_dna = Some 22 \<rparr> \<rparr>] \<and>
   onLogs (\<lambda>ev seen. case ev_dna ev of None \<Rightarrow> Inl (Error ''TypeError'')
                                      | Some d \<Rightarrow> Inr (seen @ [d]))
     ([\<lparr> log_args = Some \<lparr> arg_zombieId = Some 1, arg_name = Some ''Rex'', arg_dna = Some 11 \<rparr> \<rparr>]
       @ \<lparr> log_args = None \<rparr>
       # [\<lparr> log_args = Some \<lparr> arg_zombieId = Some 2, arg_name = Some ''Max'', arg_dna = Some 22 \<rparr> \<rparr>])
     [] = Inr [11, 22 :: int]"
  using onLogs_absent_args_not_reported
    [of "\<lparr> log_args = None \<rparr>"
        "\<lambda>ev seen. case ev_dna ev of None \<Rightarrow> Inl (Error ''TypeError'')
                                      | Some d \<Rightarrow> Inr (seen @ [d])"
        "[]"
        "[\<lparr> log_args = Some \<lparr> arg_zombieId = Some 1, arg_name = Some ''Rex'', arg_dna = Some 11 \<rparr> \<rparr>]"
        "[\<lparr> log_args = Some \<lparr> arg_zombieId = Some 2, arg_name = Some ''Max'', arg_dna = Some 22 \<rparr> \<rparr>]"
        "[]"]
  by (simp add: decodable_def events_of_Cons events_of_Nil event_of_def)

section \<open>The contract calls: claims\<close>

text \<open>
  C6. When the wallet has answered and the simulation of the creation call rejects
  with an error, \<open>createRandomZombie\<close> fails with that error; the primitives invoked
  are \<^verbatim>\<open>requestAddresses\<close> and \<^verbatim>\<open>simulateContract\<close>, in this order and nothing else, so
  \<^verbatim>\<open>writeContract\<close> is not invoked and the world is left as the simulation left it.
\<close>

theorem createRandomZombie_simulation_rejects:
  assumes "requestAddresses walletClient (world s) = (Inr accounts, w1)"
      and "simulateContract publicClient
             \<lparr> address = contractAddress, abi = ZombieFactoryAbi,
               functionName = ''createRandomZombie'', args = [ArgString name],
               account = (case accounts of [] \<Rightarrow> None | a # _ \<Rightarrow> Some a) \<rparr> w1 = (Inl e, w2)"
  shows "fst (createRandomZombie walletClient publicClient contractAddress name s) = Inl e \<and>
         new_calls s (snd (createRandomZombie walletClient publicClient contractAddress name s)) =
           [(RequestAddresses, None),
            (SimulateContract
               \<lparr> address = contractAddress, abi = ZombieFactoryAbi,
                 functionName = ''createRandomZombie'', args = [ArgString name],
                 account = (case accounts of [] \<Rightarrow> None | a # _ \<Rightarrow> Some a) \<rparr>, Some e)] \<and>
         list_all (\<lambda>c. primitive_of (fst c) \<noteq> PWriteContract)
           (new_calls s (snd (createRandomZombie walletClient publicClient contractAddress name s))) \<and>
         world (snd (createRandomZombie walletClient publicClient contractAddress name s)) = w2"
  using assms
  by (simp add: createRandomZombie_def invoke_def Let_def console_error_def new_calls_def raised_def)

theorem createRandomZombie_simulation_rejects_witness:
  "fst (createRandomZombie
          \<lparr> requestAddresses = (\<lambda>w. (Inr [''0xA1''], w + 1)),
            writeContract = (\<lambda>r w. (Inr ''0xHASH'', w + (100::nat))) \<rparr>
          \<lparr> simulateContract = (\<lambda>p w. (Inl (Error ''execution reverted'') :: error + contract_call, w + 10)),
            readContract = (\<lambda>p w. (Inr (''Rex'', 1), w)) \<rparr>
          ''0xC0'' ''Rex'' \<lparr> world = 0, calls = [], console = [] \<rparr>)
     = (Inl (Error ''execution reverted'') :: error + hash) \<and>
   world (snd (createRandomZombie
          \<lparr> requestAddresses = (\<lambda>w. (Inr [''0xA1''], w + 1)),
            writeContract = (\<lambda>r w. (Inr ''0xHASH'', w + (100::nat))) \<rparr>
          \<lparr> simulateContract = (\<lambda>p w. (Inl (Error ''execution reverted'') :: error + contract_call, w + 10)),
            readContract = (\<lambda>p w. (Inr (''Rex'', 1), w)) \<rparr>
          ''0xC0'' ''Rex'' \<lparr> world = 0, calls = [], console = [] \<rparr>)) = 11"
  using createRandomZombie_simulation_rejects
    [of "\<lparr> requestAddresses = (\<lambda>w. (Inr [''0xA1''], w + 1)),
            writeContract = (\<lambda>r w. (Inr ''0xHASH'', w + (100::nat))) \<rparr>"
        "\<lparr> world = 0, calls = [], console = [] \<rparr>" "[''0xA1'']" 1
        "\<lparr> simulateContract = (\<lambda>p w. (Inl (Error ''execution reverted'') :: error + contract_call, w + 10)),
            readContract = (\<lambda>p w. (Inr (''Rex'', 1), w)) \<rparr>"
        "''0xC0''" "''Rex''" "Error ''execution reverted''" 11]
  by simp


lemma createRandomZombie_trace:
  "propagates (fst (createRandomZombie walletClient publicClient contractAddress name s))
     (new_calls s (snd (createRandomZombie walletClient publicClient contractAddress name s))) \<and>
   distinct (map (primitive_of \<circ> fst)
     (new_calls s (snd (createRandomZombie walletClient publicClient contractAddress name s)))) \<and>
   calls (snd (createRandomZombie walletClient publicClient contractAddress name s)) =
     calls s @ new_calls s (snd (createRandomZombie walletClient publicClient contractAddress name s))"
  by (simp add: createRandomZombie_def invoke_def Let_def console_error_def new_calls_def
      raised_def propagates_def split: prod.splits sum.splits)

lemma getZombie_trace:
  "propagates (fst (getZombie publicClient contractAddress zombieId s))
     (new_calls s (snd (getZombie publicClient contractAddress zombieId s))) \<and>
   distinct (map (primitive_of \<circ> fst)
     (new_calls s (snd (getZombie publicClient contractAddress zombieId s)))) \<and>
   calls (snd (getZombie publicClient contractAddress zombieId s)) =
     calls s @ new_calls s (snd (getZombie publicClient contractAddress zombieId s))"
  by (simp add: getZombie_def invoke_def Let_def console_error_def new_calls_def
      raised_def propagates_def split: prod.splits sum.splits)

text \<open>
  C7. Whichever primitive raises, the operation fails with the very error that the
  primitive returned, after one invocation of each primitive before it and none
  after it: the world is the one the raising primitive left, the trace of the call
  ends with it, and the console has the one line of the handler. This holds for
  \<^verbatim>\<open>requestAddresses\<close>, \<^verbatim>\<open>simulateContract\<close> and \<^verbatim>\<open>writeContract\<close> in
  \<open>createRandomZombie\<close> and for \<^verbatim>\<open>readContract\<close> in \<open>getZombie\<close>. When no primitive
  raises, the operation returns what the last primitive returned and raises nothing.
  In every case the invocations that the call adds to the trace are tied to its outcome
  by \<open>propagates\<close>, and no kind of primitive occurs twice among them.
\<close>

theorem gateway_errors_propagate_unmodified:
  "(let params = \<lparr> address = contractAddress, abi = ZombieFactoryAbi,
                    functionName = ''createRandomZombie'', args = [ArgString name],
                    account = (case accounts of [] \<Rightarrow> None | a # _ \<Rightarrow> Some a) \<rparr>;
        failed = (\<lambda>e w cs. (Inl e,
                    \<lparr> world = w, calls = calls s @ cs,
                      console = console s @ [ConsoleError ''Error creating zombie:'' e] \<rparr>))
    in (requestAddresses walletClient (world s) = (Inl e, w1) \<longrightarrow>
          createRandomZombie walletClient publicClient contractAddress name s =
            failed e w1 [(RequestAddresses, Some e)]) \<and>
       (requestAddresses walletClient (world s) = (Inr accounts, w1) \<and>
        simulateContract publicClient params w1 = (Inl e, w2) \<longrightarrow>
          createRandomZombie walletClient publicClient contractAddress name s =
            failed e w2 [(RequestAddresses, None), (SimulateContract params, Some e)]) \<and>
       (requestAddresses walletClient (world s) = (Inr accounts, w1) \<and>
        simulateContract publicClient params w1 = (Inr request, w2) \<and>
        writeContract walletClient request w2 = (Inl e, w3) \<longrightarrow>
          createRandomZombie walletClient publicClient contractAddress name s =
            failed e w3 [(RequestAddresses, None), (SimulateContract params, None),
                         (WriteContract request, Some e)]) \<and>
       (requestAddresses walletClient (world s) = (Inr accounts, w1) \<and>
        simulateContract publicClient params w1 = (Inr request, w2) \<and>
        writeContract walletClient request w2 = (Inr h, w3) \<longrightarrow>
          createRandomZombie walletClient publicClient contractAddress name s =
            (Inr h, \<lparr> world = w3,
                      calls = calls s @ [(RequestAddresses, None), (SimulateContract params, None),
                                         (WriteContract request, None)],
                      console = console s \<rparr>))) \<and>
   (let params = \<lparr> address = contractAddress, abi = ZombieFactoryAbi,
                    functionName = ''zombies'', args = [ArgBigint zombieId],
                    account = None \<rparr>
    in (readContract publicClient params (world s) = (Inl e, w1) \<longrightarrow>
          getZombie publicClient contractAddress zombieId s =
            (Inl e, \<lparr> world = w1, calls = calls s @ [(ReadContract params, Some e)],
                      console = console s @ [ConsoleError ''Error getting zombie:'' e] \<rparr>)) \<and>
       (readContract publicClient params (world s) = (Inr (zname, zdna), w1) \<longrightarrow>
          getZombie publicClient contractAddress zombieId s =
            (Inr \<lparr> zombie_name = zname, zombie_dna = zdna \<rparr>,
             \<lparr> world = w1, calls = calls s @ [(ReadContract params, None)],
               console = console s \<rparr>))) \<and>
   propagates (fst (createRandomZombie walletClient publicClient contractAddress name s))
     (new_calls s (snd (createRandomZombie walletClient publicClient contractAddress name s))) \<and>
   distinct (map (primitive_of \<circ> fst)
     (new_calls s (snd (createRandomZombie walletClient publicClient contractAddress name s)))) \<and>
   calls (snd (createRandomZombie walletClient publicClient contractAddress name s)) =
     calls s @ new_calls s (snd (createRandomZombie walletClient publicClient contractAddress name s)) \<and>
   propagates (fst (getZombie publicClient contractAddress zombieId s))
     (new_calls s (snd (getZombie publicClient contractAddress zombieId s))) \<and>
   distinct (map (primitive_of \<circ> fst)
     (new_calls s (snd (getZombie publicClient contractAddress zombieId s)))) \<and>
   calls (snd (getZombie publicClient contractAddress zombieId s)) =
     calls s @ new_calls s (snd (getZombie publicClient contractAddress zombieId s))"
  apply (intro conjI)
  subgoal by (simp add: createRandomZombie_def invoke_def Let_def console_error_def raised_def)
  subgoal by (simp add: getZombie_def invoke_def Let_def console_error_def raised_def)
  subgoal using createRandomZombie_trace by blast
  subgoal using createRandomZombie_trace by blast
  subgoal using createRandomZombie_trace by blast
  subgoal using getZombie_trace by blast
  subgoal using getZombie_trace by blast
  subgoal using getZombie_trace by blast
  done

theorem gateway_errors_propagate_unmodified_witness:
  "createRandomZombie
     \<lparr> requestAddresses = (\<lambda>w. (Inl (Error ''No wallet''), w + 1)),
       writeContract = (\<lambda>r w. (Inr ''0xHASH'', w + (100::nat))) \<rparr>
     \<lparr> simulateContract = (\<lambda>p w. (Inr p, w + 10)),
       readContract = (\<lambda>p w. (Inl (Error ''HTTP request failed''), w + 1000)) \<rparr>
     ''0xC0'' ''Rex'' \<lparr> world = 0, calls = [], console = [] \<rparr> =
   (Inl (Error ''No wallet''),
    \<lparr> world = 1, calls = [(RequestAddresses, Some (Error ''No wallet''))],
      console = [ConsoleError ''Error creating zombie:'' (Error ''No wallet'')] \<rparr>) \<and>
   fst (createRandomZombie
     \<lparr> requestAddresses = (\<lambda>w. (Inr [''0xA1''], w + 1)),
       writeContract = (\<lambda>r w. (Inr ''0xHASH'', w + (100::nat))) \<rparr>
     \<lparr> simulateContract = (\<lambda>p w. (Inl (Error ''execution reverted'') :: error + contract_call, w + 10)),
       readContract = (\<lambda>p w. (Inl (Error ''HTTP request failed''), w + 1000)) \<rparr>
     ''0xC0'' ''Rex'' \<lparr> world = 0, calls = [], console = [] \<rparr>) =
   Inl (Error ''execution reverted'') \<and>
   createRandomZombie
     \<lparr> requestAddresses = (\<lambda>w. (Inr [''0xA1''], w + 1)),
       writeContract = (\<lambda>r w. (Inl (Error ''User rejected the request''), w + (100::nat))) \<rparr>
     \<lparr> simulateContract = (\<lambda>p w. (Inr p, w + 10)),
       readContract = (\<lambda>p w. (Inl (Error ''HTTP request failed''), w + 1000)) \<rparr>
     ''0xC0'' ''Rex'' \<lparr> world = 0, calls = [], console = [] \<rparr> =
   (Inl (Error ''User rejected the request''),
    \<lparr> world = 111,
      calls = [(RequestAddresses, None),
               (SimulateContract
                  \<lparr> address = ''0xC0'', abi = ZombieFactoryAbi,
                    functionName = ''createRandomZombie'', args = [ArgString ''Rex''],
                    account = Some ''0xA1'' \<rparr>, None),
               (WriteContract
                  \<lparr> address = ''0xC0'', abi = ZombieFactoryAbi,
                    functionName = ''createRandomZombie'', args = [ArgString ''Rex''],
                    account = Some ''0xA1'' \<rparr>, Some (Error ''User rejected the request''))],
      console = [ConsoleError ''Error creating zombie:'' (Error ''User rejected the request'')] \<rparr>) \<and>
   getZombie
     \<lparr> simulateContract = (\<lambda>p w. (Inr p, w + 10)),
       readContract = (\<lambda>p w. (Inl (Error ''HTTP request failed''), w + 1000)) \<rparr>
     ''0xC0'' 5 \<lparr> world = (0::nat), calls = [], console = [] \<rparr> =
   (Inl (Error ''HTTP request failed''),
    \<lparr> world = 1000,
      calls = [(ReadContract
                  \<lparr> address = ''0xC0'', abi = ZombieFactoryAbi, functionName = ''zombies'',
                    args = [ArgBigint 5], account = None \<rparr>,
                Some (Error ''HTTP request failed''))],
      console = [ConsoleError ''Error getting zombie:'' (Error ''HTTP request failed'')] \<rparr>)"
  using
    gateway_errors_propagate_unmodified
      [where walletClient = "\<lparr> requestAddresses = (\<lambda>w. (Inl (Error ''No wallet''), w + 1)),
                writeContract = (\<lambda>r w. (Inr ''0xHASH'', w + (100::nat))) \<rparr>"
         and publicClient = "\<lparr> simulateContract = (\<lambda>p w. (Inr p, w + 10)),
                readContract = (\<lambda>p w. (Inl (Error ''HTTP request failed''), w + 1000)) \<rparr>"
         and contractAddress = "''0xC0''" and name = "''Rex''" and zombieId = 5
         and s = "\<lparr> world = 0, calls = [], console = [] \<rparr>"
         and e = "Error ''No wallet''" and ?w1.0 = 1]
    gateway_errors_propagate_unmodified
      [where walletClient = "\<lparr> requestAddresses = (\<lambda>w. (Inr [''0xA1''], w + 1)),
                writeContract = (\<lambda>r w. (Inr ''0xHASH'', w + (100::nat))) \<rparr>"
         and publicClient = "\<lparr> simulateContract = (\<lambda>p w. (Inl (Error ''execution reverted'') :: error + contract_call, w + 10)),
                readContract = (\<lambda>p w. (Inl (Error ''HTTP request failed''), w + 1000)) \<rparr>"
         and contractAddress = "''0xC0''" and name = "''Rex''"
         and s = "\<lparr> world = 0, calls = [], console = [] \<rparr>"
         and accounts = "[''0xA1'']" and e = "Error ''execution reverted''"
         and ?w1.0 = 1 and ?w2.0 = 11]
    gateway_errors_propagate_unmodified
      [where walletClient = "\<lparr> requestAddresses = (\<lambda>w. (Inr [''0xA1''], w + 1)),
                writeContract = (\<lambda>r w. (Inl (Error ''User rejected the request''), w + (100::nat))) \<rparr>"
         and publicClient = "\<lparr> simulateContract = (\<lambda>p w. (Inr p, w + 10)),
                readContract = (\<lambda>p w. (Inl (Error ''HTTP request failed''), w + 1000)) \<rparr>"
         and contractAddress = "''0xC0''" and name = "''Rex''" and zombieId = 5
         and s = "\<lparr> world = 0, calls = [], console = [] \<rparr>"
         and accounts = "[''0xA1'']" and e = "Error ''User rejected the request''"
         and request = "\<lparr> address = ''0xC0'', abi = ZombieFactoryAbi,
                    functionName = ''createRandomZombie'', args = [ArgString ''Rex''],
                    account = Some ''0xA1'' \<rparr>"
         and ?w1.0 = 1 and ?w2.0 = 11 and ?w3.0 = 111]
    gateway_errors_propagate_unmodified
      [where publicClient = "\<lparr> simulateContract = (\<lambda>p w. (Inr p, w + 10)),
                readContract = (\<lambda>p w. (Inl (Error ''HTTP request failed''), w + 1000)) \<rparr>"
         and walletClient = "\<lparr> requestAddresses = (\<lambda>w. (Inr [''0xA1''], w + 1)),
                writeContract = (\<lambda>r w. (Inr ''0xHASH'', w + (100::nat))) \<rparr>"
         and contractAddress = "''0xC0''" and zombieId = 5
         and s = "\<lparr> world = 0, calls = [], console = [] \<rparr>"
         and e = "Error ''HTTP request failed''" and ?w1.0 = 1000]
  by (simp add: Let_def)

lemma run_events_stopped:
  "sub_status sub = Stopped \<Longrightarrow> run_events evs sub s = Inr (sub, s)"
proof (induction evs)
  case Nil
  show ?case by simp
next
  case (Cons ev evs)
  then show ?case
    by (cases ev) (simp_all add: unwatch_def deliver_def)
qed

lemma unwatch_stopped: "sub_status (unwatch sub) = Stopped"
  by (cases "sub_status sub") (simp_all add: unwatch_def)

lemma run_events_append:
  "run_events (evs1 @ evs2) sub s =
     (case run_events evs1 sub s of
        Inl e \<Rightarrow> Inl e
      | Inr (sub', s') \<Rightarrow> run_events evs2 sub' s')"
proof (induction evs1 arbitrary: sub s)
  case Nil
  show ?case by simp
next
  case (Cons ev evs1)
  show ?case
    by (cases ev) (simp_all add: Cons.IH split: sum.splits)
qed

lemma run_events_batches:
  "run_events (map Batch batches) sub s = Inr (sub', s') \<Longrightarrow> sub' = sub"
proof (induction batches arbitrary: s)
  case Nil
  then show ?case by simp
next
  case (Cons b batches)
  then show ?case
    by (auto split: sum.splits)
qed

text \<open>
  C8. The subscription that \<open>watchNewZombieEvents\<close> returns is active. Invoking its
  handle stops it; from then on no batch reaches the callback, whatever batches and
  further invocations of the handle follow: the state of the application stays as it
  was when the handle was first invoked, and nothing fails. Invoking the handle again
  changes nothing. Batches alone never change the subscription, so only the handle
  takes it from active to stopped, and nothing takes it back.
\<close>

theorem unwatch_stops_subscription:
  "sub_status (watchNewZombieEvents contractAddress callback) = Active \<and>
   run_events (before @ Unwatch # after) (watchNewZombieEvents contractAddress callback) s =
     (case run_events before (watchNewZombieEvents contractAddress callback) s of
        Inl e \<Rightarrow> Inl e
      | Inr (sub, s') \<Rightarrow> Inr (unwatch sub, s')) \<and>
   sub_status (unwatch sub) = Stopped \<and>
   unwatch (unwatch sub) = unwatch sub \<and>
   run_events later (unwatch sub) s = Inr (unwatch sub, s) \<and>
   (run_events (map Batch batches) sub s = Inr (sub', s') \<longrightarrow> sub' = sub)"
proof -
  have "run_events (Unwatch # after) sub0 s0 = Inr (unwatch sub0, s0)" for sub0 :: "'a subscription" and s0
    by (simp add: run_events_stopped unwatch_stopped)
  then have "run_events (before @ Unwatch # after) (watchNewZombieEvents contractAddress callback) s =
     (case run_events before (watchNewZombieEvents contractAddress callback) s of
        Inl e \<Rightarrow> Inl e
      | Inr (sub, s') \<Rightarrow> Inr (unwatch sub, s'))"
    by (simp add: run_events_append del: run_events.simps split: sum.splits)
  moreover have "unwatch (unwatch sub) = unwatch sub"
    by (cases "sub_status sub") (simp_all add: unwatch_def)
  ultimately show ?thesis
    using run_events_batches [of batches sub s sub' s']
    by (simp add: run_events_stopped unwatch_stopped watchNewZombieEvents_def
        watchContractEvent_def)
qed

theorem unwatch_stops_subscription_witness:
  "run_events
     [Batch [\<lparr> log_args = Some \<lparr> arg_zombieId = Some 1, arg_name = Some ''Rex'', arg_dna = Some 11 \<rparr> \<rparr>],
      Unwatch,
      Batch [\<lparr> log_args = Some \<lparr> arg_zombieId = Some 2, arg_name = Some ''Max'', arg_dna = Some 22 \<rparr> \<rparr>],
      Unwatch,
      Batch [\<lparr> log_args = Some \<lparr> arg_zombieId = Some 3, arg_name = Some ''Ann'', arg_dna = Some 33 \<rparr> \<rparr>]]
     (watchNewZombieEvents ''0xC0'' record_event) [] =
   Inr (unwatch (watchNewZombieEvents ''0xC0'' record_event),
        [\<lparr> ev_zombieId = Some 1, ev_name = Some ''Rex'', ev_dna = Some 11 \<rparr>])"
  using unwatch_stops_subscription
    [of "''0xC0''" record_event
        "[Batch [\<lparr> log_args = Some \<lparr> arg_zombieId = Some 1, arg_name = Some ''Rex'', arg_dna = Some 11 \<rparr> \<rparr>]]"
        "[Batch [\<lparr> log_args = Some \<lparr> arg_zombieId = Some 2, arg_name = Some ''Max'', arg_dna = Some 22 \<rparr> \<rparr>],
          Unwatch,
          Batch [\<lparr> log_args = Some \<lparr> arg_zombieId = Some 3, arg_name = Some ''Ann'', arg_dna = Some 33 \<rparr> \<rparr>]]"
        "[]" "watchNewZombieEvents ''0xC0'' record_event" "[]" "[]"
        "watchNewZombieEvents ''0xC0'' record_event"]
  by (simp add: watchNewZombieEvents_def watchContractEvent_def deliver_def record_event_def)

end
